theory Spec2Isabelle
  imports Complex_Main
begin

section \<open>Values, exceptions and logging\<close>

text \<open>
  The two API clients consume decoded JSON. A decoded value is one of Python's
  \<^verbatim>\<open>None\<close>, \<^verbatim>\<open>bool\<close>, \<^verbatim>\<open>int\<close>, \<^verbatim>\<open>float\<close>, \<^verbatim>\<open>str\<close>, \<^verbatim>\<open>list\<close> or \<^verbatim>\<open>dict\<close>.
  Floats are idealised as reals: rounding, infinities and NaN payloads are outside the
  model. A dict is an association list in which the first binding of a key is the one
  that counts.
\<close>

datatype json =
    JNull
  | JBool bool
  | JInt int
  | JFloat real
  | JStr string
  | JList "json list"
  | JObj "(string \<times> json) list"

type_synonym pydict = "(string \<times> json) list"

text \<open>The exceptions that the modelled code can raise or catch.\<close>

datatype pyexn =
    TypeError
  | ValueError
  | AttributeError
  | OverflowError
  | KeyError string
  | RequestException

text \<open>Sequencing: an exception ends the computation.\<close>

definition bind_exn :: "pyexn + 'a \<Rightarrow> ('a \<Rightarrow> pyexn + 'b) \<Rightarrow> pyexn + 'b" where
  "bind_exn r f = (case r of Inl e \<Rightarrow> Inl e | Inr v \<Rightarrow> f v)"

text \<open>
  What \<^verbatim>\<open>logging.warning\<close> and \<^verbatim>\<open>logging.error\<close> receive. A warning carries its
  message; an error entry carries the exception or the HTTP status that the message
  interpolates.
\<close>

datatype log_entry =
    LogWarning string
  | LogErrorExn pyexn
  | LogErrorStatus int

text \<open>\<^verbatim>\<open>d.get(k, default)\<close> and \<^verbatim>\<open>d.get(k)\<close>, whose default is \<^verbatim>\<open>None\<close>.\<close>

definition dict_get :: "pydict \<Rightarrow> string \<Rightarrow> json \<Rightarrow> json" where
  "dict_get d k dflt = (case map_of d k of None \<Rightarrow> dflt | Some v \<Rightarrow> v)"

definition dict_get_none :: "pydict \<Rightarrow> string \<Rightarrow> json" where
  "dict_get_none d k = dict_get d k JNull"

text \<open>
  A pandas float result: \<^verbatim>\<open>Series.mean()\<close> of a series without values is NaN, which
  is kept apart from every number.
\<close>

datatype pyfloat = NaN | Finite real

definition series_mean :: "real list \<Rightarrow> pyfloat" where
  "series_mean xs = (if xs = [] then NaN else Finite (sum_list xs / real (length xs)))"

section \<open>dashboard.py: vehicle statistics\<close>

subsection \<open>Status classification (fetch\_vehicle\_stats, line 137)\<close>

text \<open>
  \<^verbatim>\<open>x > 0\<close> for a decoded value \<^verbatim>\<open>x\<close>: defined on numbers (a bool is an int), a
  \<^verbatim>\<open>TypeError\<close> on \<^verbatim>\<open>None\<close>, strings, lists and dicts.
\<close>

fun py_gt_zero :: "json \<Rightarrow> pyexn + bool" where
  "py_gt_zero (JInt n) = Inr (n > 0)"
| "py_gt_zero (JFloat r) = Inr (r > 0)"
| "py_gt_zero (JBool b) = Inr b"
| "py_gt_zero JNull = Inl TypeError"
| "py_gt_zero (JStr s) = Inl TypeError"
| "py_gt_zero (JList xs) = Inl TypeError"
| "py_gt_zero (JObj kv) = Inl TypeError"

text \<open>
  The conditional expression
  \<^verbatim>\<open>"moving" if speed > 0 else "idle" if engine == "Running" else "offline"\<close>
  on the two values it reads.
\<close>

definition classify_status :: "json \<Rightarrow> json \<Rightarrow> pyexn + string" where
  "classify_status speed engine =
     (case py_gt_zero speed of
        Inl e \<Rightarrow> Inl e
      | Inr True \<Rightarrow> Inr ''moving''
      | Inr False \<Rightarrow> Inr (if engine = JStr ''Running'' then ''idle'' else ''offline''))"

text \<open>The \<^verbatim>\<open>"status"\<close> entry of the row built from the stats payload \<^verbatim>\<open>s\<close>.\<close>

definition stats_status :: "pydict \<Rightarrow> pyexn + string" where
  "stats_status s =
     classify_status (dict_get s ''speedMilesPerHour'' (JInt 0)) (dict_get_none s ''engineState'')"

subsection \<open>The stats table\<close>

text \<open>
  A row of the stats table as the data model types it: an identifier, four numeric
  readings and the derived status. A table is the list of its rows in index order;
  \<^verbatim>\<open>DataFrame.empty\<close> is the empty list.
\<close>

record stat_row =
  vehicle_id :: string
  speed_mph :: real
  fuel_percent :: real
  engine_hours :: real
  odometer_miles :: real
  status :: string

record fleet_metrics =
  total_vehicles :: nat
  moving :: nat
  idle :: nat
  offline :: nat
  avg_speed :: pyfloat
  total_engine_hours :: real
  low_fuel :: nat

text \<open>
  calculate\_fleet\_metrics (lines 171--192). Only the emptiness and the length of the
  vehicles table are read, so its row type is left open.
\<close>

definition calculate_fleet_metrics :: "'v list \<Rightarrow> stat_row list \<Rightarrow> fleet_metrics" where
  "calculate_fleet_metrics vehicles_df stats_df =
     (if vehicles_df = [] \<or> stats_df = [] then
        \<lparr>total_vehicles = 0, moving = 0, idle = 0, offline = 0,
         avg_speed = Finite 0, total_engine_hours = 0, low_fuel = 0\<rparr>
      else
        \<lparr>total_vehicles = length vehicles_df,
         moving = length (filter (\<lambda>r. status r = ''moving'') stats_df),
         idle = length (filter (\<lambda>r. status r = ''idle'') stats_df),
         offline = length (filter (\<lambda>r. status r = ''offline'') stats_df),
         avg_speed = series_mean (map speed_mph stats_df),
         total_engine_hours = sum_list (map engine_hours stats_df),
         low_fuel = length (filter (\<lambda>r. fuel_percent r < 20) stats_df)\<rparr>)"

subsection \<open>Alerts (generate\_alerts, lines 194--202)\<close>

text \<open>
  The loop appends to \<^verbatim>\<open>alerts\<close>, first the speeding test, then the fuel test, row by
  row. How a number is printed inside the f-string depends on the column's dtype, so
  the printer \<open>str_num\<close> is a parameter.
\<close>

definition speeding_alert :: "(real \<Rightarrow> string) \<Rightarrow> stat_row \<Rightarrow> string" where
  "speeding_alert str_num row =
     ''Vehicle '' @ vehicle_id row @ '': Speeding ('' @ str_num (speed_mph row) @ '' mph)''"

definition low_fuel_alert :: "(real \<Rightarrow> string) \<Rightarrow> stat_row \<Rightarrow> string" where
  "low_fuel_alert str_num row =
     ''Vehicle '' @ vehicle_id row @ '': Low fuel ('' @ str_num (fuel_percent row) @ ''%)''"

fun alerts_loop :: "(real \<Rightarrow> string) \<Rightarrow> string list \<Rightarrow> stat_row list \<Rightarrow> string list" where
  "alerts_loop str_num alerts [] = alerts"
| "alerts_loop str_num alerts (row # rest) =
     (let alerts1 = (if speed_mph row > 80 then alerts @ [speeding_alert str_num row] else alerts);
          alerts2 = (if fuel_percent row < 20 then alerts1 @ [low_fuel_alert str_num row] else alerts1)
      in alerts_loop str_num alerts2 rest)"

definition generate_alerts :: "(real \<Rightarrow> string) \<Rightarrow> stat_row list \<Rightarrow> string list" where
  "generate_alerts str_num stats_df = alerts_loop str_num [] stats_df"

text \<open>
  The specification's reading of the same function: per row, the speeding alert if
  due, then the low-fuel alert if due; rows in table order.
\<close>

definition row_alerts :: "(real \<Rightarrow> string) \<Rightarrow> stat_row \<Rightarrow> string list" where
  "row_alerts str_num row =
     (if speed_mph row > 80 then [speeding_alert str_num row] else []) @
     (if fuel_percent row < 20 then [low_fuel_alert str_num row] else [])"

definition alerts_spec :: "(real \<Rightarrow> string) \<Rightarrow> stat_row list \<Rightarrow> string list" where
  "alerts_spec str_num stats_df = concat (map (row_alerts str_num) stats_df)"

subsection \<open>Joining the tables (main, lines 236--239)\<close>

text \<open>
  A pandas table with named columns: the column labels in order, and the rows as
  lists of cells in column order. A missing cell (NaN, \<^verbatim>\<open>None\<close>) is \<open>JNull\<close>.
\<close>

record frame =
  columns :: "string list"
  rows :: "json list list"

text \<open>
  \<^verbatim>\<open>pd.DataFrame(records)\<close> for a list of dicts: the columns are the keys in order of
  first appearance, and a key that a record lacks gives a missing cell. For the empty
  list, and for \<^verbatim>\<open>pd.DataFrame()\<close>, the table has no column at all. Every fetcher
  of \<^verbatim>\<open>SamsaraAPI\<close> builds its table this way.
\<close>

definition first_seen :: "string list \<Rightarrow> string list" where
  "first_seen ks = rev (remdups (rev ks))"

definition DataFrame :: "pydict list \<Rightarrow> frame" where
  "DataFrame records =
     (let cols = first_seen (concat (map (map fst) records))
      in \<lparr>columns = cols, rows = map (\<lambda>r. map (\<lambda>c. dict_get r c JNull) cols) records\<rparr>)"

text \<open>The dict that fetch\_vehicles builds for the payload \<open>v\<close> (lines 83--92).\<close>

definition vehicle_record :: "pydict \<Rightarrow> pydict" where
  "vehicle_record v =
     [(''id'', dict_get_none v ''id''),
      (''name'', dict_get_none v ''name''),
      (''vin'', dict_get_none v ''vin''),
      (''make'', dict_get_none v ''make''),
      (''model'', dict_get_none v ''model''),
      (''year'', dict_get_none v ''year''),
      (''license_plate'', dict_get_none v ''licensePlate''),
      (''serial'', dict_get_none v ''serial'')]"

definition cell :: "frame \<Rightarrow> json list \<Rightarrow> string \<Rightarrow> json" where
  "cell df row c = (case map_of (zip (columns df) row) c of None \<Rightarrow> JNull | Some v \<Rightarrow> v)"

text \<open>
  \<^verbatim>\<open>left.merge(right, left_on=..., right_on=..., how="left", suffixes=...)\<close> on one key
  column each. pandas looks the key up in the right table, then in the left one, and
  raises \<^verbatim>\<open>KeyError\<close> for a label that is not a column. When both keys have the same
  label (\<^verbatim>\<open>on=\<close>) the right key column is dropped. A label that remains on both sides
  gets the suffixes. Every left row is kept, in order, once per matching right row, and
  once with missing cells when no right row matches.
\<close>

definition merge_left ::
    "frame \<Rightarrow> frame \<Rightarrow> string \<Rightarrow> string \<Rightarrow> string \<times> string \<Rightarrow> pyexn + frame" where
  "merge_left left right left_on right_on suffixes =
     (if right_on \<notin> set (columns right) then Inl (KeyError right_on)
      else if left_on \<notin> set (columns left) then Inl (KeyError left_on)
      else
        (let rcols = (if left_on = right_on then filter (\<lambda>c. c \<noteq> right_on) (columns right)
                      else columns right);
             lnames = map (\<lambda>c. if c \<in> set rcols then c @ fst suffixes else c) (columns left);
             rnames = map (\<lambda>c. if c \<in> set (columns left) then c @ snd suffixes else c) rcols;
             joined = concat (map (\<lambda>l.
                        (let ms = filter (\<lambda>r. cell right r right_on = cell left l left_on) (rows right)
                         in if ms = [] then [l @ map (\<lambda>c. JNull) rcols]
                            else map (\<lambda>r. l @ map (cell right r) rcols) ms))
                      (rows left))
         in Inr \<lparr>columns = lnames @ rnames, rows = joined\<rparr>))"

text \<open>
  The four merges of \<^verbatim>\<open>main\<close>, in order; the first three use the default suffixes
  \<^verbatim>\<open>("_x", "_y")\<close>. None of them is inside a \<^verbatim>\<open>try\<close>.
\<close>

definition join_tables :: "frame \<Rightarrow> frame \<Rightarrow> frame \<Rightarrow> frame \<Rightarrow> frame \<Rightarrow> pyexn + frame" where
  "join_tables vehicles_df stats_df locations_df assignments_df drivers_df =
     bind_exn (merge_left vehicles_df stats_df ''id'' ''vehicle_id'' (''_x'', ''_y'')) (\<lambda>m1.
     bind_exn (merge_left m1 locations_df ''id'' ''vehicle_id'' (''_x'', ''_y'')) (\<lambda>m2.
     bind_exn (merge_left m2 assignments_df ''vehicle_id'' ''vehicle_id'' (''_x'', ''_y'')) (\<lambda>m3.
     merge_left m3 drivers_df ''driver_id'' ''id'' ([], ''_driver''))))"

section \<open>repair\_orders.py: days open\<close>

subsection \<open>Naive and aware datetimes\<close>

text \<open>
  A \<^verbatim>\<open>datetime\<close> value. \<open>tzoffset\<close> is the UTC offset in microseconds of an aware
  value and \<open>None\<close> for a naive one, as \<^verbatim>\<open>datetime.now()\<close> returns.
\<close>

record datetime =
  year :: int
  month :: int
  day :: int
  hour :: int
  minute :: int
  second :: int
  microsecond :: int
  tzoffset :: "int option"

definition is_leap :: "int \<Rightarrow> bool" where
  "is_leap y = (y mod 4 = 0 \<and> (y mod 400 = 0 \<or> y mod 100 \<noteq> 0))"

definition days_in_month :: "int \<Rightarrow> int \<Rightarrow> int" where
  "days_in_month y m =
     (if m = 2 then (if is_leap y then 29 else 28)
      else if m = 4 \<or> m = 6 \<or> m = 9 \<or> m = 11 then 30 else 31)"

definition days_before_year :: "int \<Rightarrow> int" where
  "days_before_year y = (y - 1) * 365 + (y - 1) div 4 - (y - 1) div 100 + (y - 1) div 400"

definition days_before_month :: "int \<Rightarrow> int \<Rightarrow> int" where
  "days_before_month y m =
     [0, 31, 59, 90, 120, 151, 181, 212, 243, 273, 304, 334] ! nat (m - 1)
       + (if m > 2 \<and> is_leap y then 1 else 0)"

definition ymd2ord :: "int \<Rightarrow> int \<Rightarrow> int \<Rightarrow> int" where
  "ymd2ord y m d = days_before_year y + days_before_month y m + d"

text \<open>The constructor's range checks; a value outside them is a \<^verbatim>\<open>ValueError\<close>.\<close>

definition valid_datetime :: "datetime \<Rightarrow> bool" where
  "valid_datetime d =
     (1 \<le> year d \<and> year d \<le> 9999 \<and> 1 \<le> month d \<and> month d \<le> 12
      \<and> 1 \<le> day d \<and> day d \<le> days_in_month (year d) (month d)
      \<and> 0 \<le> hour d \<and> hour d \<le> 23 \<and> 0 \<le> minute d \<and> minute d \<le> 59
      \<and> 0 \<le> second d \<and> second d \<le> 59
      \<and> 0 \<le> microsecond d \<and> microsecond d \<le> 999999)"

text \<open>Microseconds since the start of day 0 of the proleptic Gregorian calendar.\<close>

definition to_microseconds :: "datetime \<Rightarrow> int" where
  "to_microseconds d =
     (((ymd2ord (year d) (month d) (day d) * 24 + hour d) * 60 + minute d) * 60 + second d)
        * 1000000 + microsecond d"

text \<open>
  \<^verbatim>\<open>a - b\<close> on datetimes, as the microseconds of the resulting \<^verbatim>\<open>timedelta\<close>. Mixing a
  naive with an aware operand raises \<^verbatim>\<open>TypeError\<close>.
\<close>

definition datetime_sub :: "datetime \<Rightarrow> datetime \<Rightarrow> pyexn + int" where
  "datetime_sub a b =
     (case (tzoffset a, tzoffset b) of
        (None, None) \<Rightarrow> Inr (to_microseconds a - to_microseconds b)
      | (Some oa, Some ob) \<Rightarrow> Inr ((to_microseconds a - oa) - (to_microseconds b - ob))
      | (None, Some ob) \<Rightarrow> Inl TypeError
      | (Some oa, None) \<Rightarrow> Inl TypeError)"

text \<open>
  \<^verbatim>\<open>timedelta.days\<close>: a timedelta is normalised with its seconds and microseconds
  non-negative, so the days are the floor of the quotient.
\<close>

definition timedelta_days :: "int \<Rightarrow> int" where
  "timedelta_days us = us div 86400000000"

subsection \<open>datetime.fromisoformat\<close>

text \<open>
  The library parser, following the algorithm of CPython 3.7 to 3.10 for the grammar
  \<^verbatim>\<open>YYYY-MM-DD[*HH[:MM[:SS[.fff[fff]]]][+HH:MM[:SS[.ffffff]]]]\<close>.
  From 3.11 on the parser reads further ISO 8601 spellings and refuses a dangling
  separator; the strings evaluated in this theory are read alike by all of them.
  \<open>None\<close> stands for the \<^verbatim>\<open>ValueError\<close> it raises.
\<close>

definition is_digit :: "char \<Rightarrow> bool" where
  "is_digit c = (48 \<le> (of_char c :: nat) \<and> (of_char c :: nat) \<le> 57)"

definition digit_val :: "char \<Rightarrow> int" where
  "digit_val c = int (of_char c) - 48"

definition parse_digits :: "string \<Rightarrow> int option" where
  "parse_digits s =
     (if s \<noteq> [] \<and> list_all is_digit s
      then Some (foldl (\<lambda>a c. 10 * a + digit_val c) 0 s) else None)"

definition parse_isoformat_date :: "string \<Rightarrow> (int \<times> int \<times> int) option" where
  "parse_isoformat_date dstr =
     (if length dstr = 10 \<and> dstr ! 4 = CHR ''-'' \<and> dstr ! 7 = CHR ''-'' then
        (case (parse_digits (take 4 dstr), parse_digits (take 2 (drop 5 dstr)),
               parse_digits (drop 8 dstr)) of
           (Some y, Some m, Some d) \<Rightarrow> Some (y, m, d)
         | _ \<Rightarrow> None)
      else None)"

definition parse_hh_mm_ss_ff :: "string \<Rightarrow> (int \<times> int \<times> int \<times> int) option" where
  "parse_hh_mm_ss_ff t =
     (let n = length t in
      if n = 2 then
        (case parse_digits t of Some h \<Rightarrow> Some (h, 0, 0, 0) | None \<Rightarrow> None)
      else if n = 5 \<and> t ! 2 = CHR '':'' then
        (case (parse_digits (take 2 t), parse_digits (drop 3 t)) of
           (Some h, Some m) \<Rightarrow> Some (h, m, 0, 0)
         | _ \<Rightarrow> None)
      else if n = 8 \<and> t ! 2 = CHR '':'' \<and> t ! 5 = CHR '':'' then
        (case (parse_digits (take 2 t), parse_digits (take 2 (drop 3 t)),
               parse_digits (drop 6 t)) of
           (Some h, Some m, Some s) \<Rightarrow> Some (h, m, s, 0)
         | _ \<Rightarrow> None)
      else if (n = 12 \<or> n = 15) \<and> t ! 2 = CHR '':'' \<and> t ! 5 = CHR '':'' \<and> t ! 8 = CHR ''.'' then
        (case (parse_digits (take 2 t), parse_digits (take 2 (drop 3 t)),
               parse_digits (take 2 (drop 6 t)), parse_digits (drop 9 t)) of
           (Some h, Some m, Some s, Some f) \<Rightarrow> Some (h, m, s, if n = 12 then f * 1000 else f)
         | _ \<Rightarrow> None)
      else None)"

text \<open>\<^verbatim>\<open>str.find\<close> of one character: the index of its first occurrence.\<close>

fun find_char :: "char \<Rightarrow> string \<Rightarrow> nat option" where
  "find_char c [] = None"
| "find_char c (x # xs) =
     (if x = c then Some 0 else (case find_char c xs of None \<Rightarrow> None | Some i \<Rightarrow> Some (Suc i)))"

text \<open>
  The offset of a time-zone suffix, in microseconds: the sign is that of the
  separating character, and \<^verbatim>\<open>timezone\<close> refuses an offset of a day or more.
\<close>

definition parse_tz :: "char \<Rightarrow> string \<Rightarrow> int option" where
  "parse_tz sign_char tzstr =
     (if length tzstr = 5 \<or> length tzstr = 8 \<or> length tzstr = 15 then
        (case parse_hh_mm_ss_ff tzstr of
           None \<Rightarrow> None
         | Some (h, m, s, f) \<Rightarrow>
             (let off = ((h * 60 + m) * 60 + s) * 1000000 + f in
              if off < 86400000000
              then Some (if sign_char = CHR ''-'' then - off else off)
              else None))
      else None)"

definition parse_isoformat_time ::
    "string \<Rightarrow> ((int \<times> int \<times> int \<times> int) \<times> int option) option" where
  "parse_isoformat_time tstr =
     (if length tstr < 2 then None
      else
        (case (case find_char (CHR ''-'') tstr of
                 Some i \<Rightarrow> Some i
               | None \<Rightarrow> find_char (CHR ''+'') tstr) of
           None \<Rightarrow>
             (case parse_hh_mm_ss_ff tstr of
                None \<Rightarrow> None
              | Some hmsf \<Rightarrow> Some (hmsf, None))
         | Some i \<Rightarrow>
             (case parse_hh_mm_ss_ff (take i tstr) of
                None \<Rightarrow> None
              | Some hmsf \<Rightarrow>
                  (case parse_tz (tstr ! i) (drop (Suc i) tstr) of
                     None \<Rightarrow> None
                   | Some off \<Rightarrow> Some (hmsf, Some off)))))"

definition fromisoformat :: "string \<Rightarrow> datetime option" where
  "fromisoformat date_string =
     (case parse_isoformat_date (take 10 date_string) of
        None \<Rightarrow> None
      | Some (y, m, d) \<Rightarrow>
          (case (if drop 11 date_string = [] then Some ((0, 0, 0, 0), None)
                 else parse_isoformat_time (drop 11 date_string)) of
             None \<Rightarrow> None
           | Some ((h, mi, s, f), tz) \<Rightarrow>
               (let dt = \<lparr>year = y, month = m, day = d, hour = h, minute = mi, second = s,
                          microsecond = f, tzoffset = tz\<rparr>
                in if valid_datetime dt then Some dt else None)))"

subsection \<open>\_calculate\_days\_open (lines 189--200)\<close>

text \<open>Python truthiness of a decoded value, as \<^verbatim>\<open>if not created_date\<close> tests it.\<close>

fun truthy :: "json \<Rightarrow> bool" where
  "truthy JNull = False"
| "truthy (JBool b) = b"
| "truthy (JInt n) = (n \<noteq> 0)"
| "truthy (JFloat r) = (r \<noteq> 0)"
| "truthy (JStr s) = (s \<noteq> [])"
| "truthy (JList xs) = (xs \<noteq> [])"
| "truthy (JObj kv) = (kv \<noteq> [])"

text \<open>\<^verbatim>\<open>s.rstrip("Z")\<close> removes every trailing \<^verbatim>\<open>Z\<close>.\<close>

definition rstrip_Z :: "string \<Rightarrow> string" where
  "rstrip_Z s = rev (dropWhile (\<lambda>c. c = CHR ''Z'') (rev s))"

text \<open>
  The method on the value \<^verbatim>\<open>ro.get("created_date", "")\<close> it is called with, given the
  reading \<open>now\<close> of \<^verbatim>\<open>datetime.now()\<close>. It returns what it logged and either the
  exception that leaves it or the day count. Only \<^verbatim>\<open>ValueError\<close> is caught: a truthy
  value that is not a string has no \<^verbatim>\<open>rstrip\<close> (\<^verbatim>\<open>AttributeError\<close>), and the
  \<^verbatim>\<open>TypeError\<close> of the subtraction passes through.
\<close>

definition calculate_days_open :: "datetime \<Rightarrow> json \<Rightarrow> log_entry list \<times> (pyexn + int)" where
  "calculate_days_open now created_date =
     (if \<not> truthy created_date then ([], Inr 0)
      else
        (case created_date of
           JStr s \<Rightarrow>
             (case fromisoformat (rstrip_Z s) of
                None \<Rightarrow> ([LogWarning (''Invalid date format: '' @ rstrip_Z s)], Inr 0)
              | Some created \<Rightarrow>
                  (case datetime_sub now created of
                     Inl e \<Rightarrow> ([], Inl e)
                   | Inr us \<Rightarrow> ([], Inr (timedelta_days us))))
         | _ \<Rightarrow> ([], Inl AttributeError)))"

section \<open>repair\_orders.py: normalising repair orders\<close>

subsection \<open>Conversions used by the record literal\<close>

text \<open>
  \<^verbatim>\<open>float(x)\<close>. An int converts unless it is too large for a double, a bool is an int,
  \<^verbatim>\<open>None\<close>, lists and dicts are a \<^verbatim>\<open>TypeError\<close>. For a string the library's literal
  parser decides; it is the parameter \<open>str2float\<close>, with \<open>None\<close> for its
  \<^verbatim>\<open>ValueError\<close>.
\<close>

definition py_float :: "(string \<Rightarrow> real option) \<Rightarrow> json \<Rightarrow> pyexn + real" where
  "py_float str2float x =
     (case x of
        JInt n \<Rightarrow> (if \<bar>n\<bar> < 2 ^ 1024 - 2 ^ 970 then Inr (of_int n) else Inl OverflowError)
      | JFloat r \<Rightarrow> Inr r
      | JBool b \<Rightarrow> Inr (if b then 1 else 0)
      | JStr s \<Rightarrow> (case str2float s of None \<Rightarrow> Inl ValueError | Some r \<Rightarrow> Inr r)
      | JNull \<Rightarrow> Inl TypeError
      | JList xs \<Rightarrow> Inl TypeError
      | JObj kv \<Rightarrow> Inl TypeError)"

text \<open>\<^verbatim>\<open>", ".join(xs)\<close>: every item must be a string.\<close>

fun str_items :: "json list \<Rightarrow> string list option" where
  "str_items [] = Some []"
| "str_items (JStr s # rest) = (case str_items rest of None \<Rightarrow> None | Some ss \<Rightarrow> Some (s # ss))"
| "str_items (x # rest) = None"

fun comma_join :: "string list \<Rightarrow> string" where
  "comma_join [] = []"
| "comma_join [s] = s"
| "comma_join (s # t # rest) = s @ '', '' @ comma_join (t # rest)"

definition join_list :: "json list \<Rightarrow> pyexn + string" where
  "join_list xs = (case str_items xs of None \<Rightarrow> Inl TypeError | Some ss \<Rightarrow> Inr (comma_join ss))"

text \<open>
  Line 164, the \<^verbatim>\<open>"tasks"\<close> entry: a list is joined, anything else is passed on as it
  is, and an absent key gives the empty string.
\<close>

definition tasks_field :: "pydict \<Rightarrow> pyexn + json" where
  "tasks_field ro =
     (case map_of ro ''tasks'' of
        Some (JList xs) \<Rightarrow> (case join_list xs of Inl e \<Rightarrow> Inl e | Inr s \<Rightarrow> Inr (JStr s))
      | _ \<Rightarrow> Inr (dict_get ro ''tasks'' (JStr [])))"

text \<open>
  Line 165, the \<^verbatim>\<open>"parts_needed"\<close> entry: a list is joined, and the \<^verbatim>\<open>else\<close> branch
  is the constant \<^verbatim>\<open>""\<close>.
\<close>

definition parts_needed_field :: "pydict \<Rightarrow> pyexn + string" where
  "parts_needed_field ro =
     (case map_of ro ''parts_needed'' of
        Some (JList xs) \<Rightarrow> join_list xs
      | _ \<Rightarrow> Inr [])"

text \<open>The default order number \<^verbatim>\<open>f"RO-{n:04d}"\<close>.\<close>

fun str_nat :: "nat \<Rightarrow> string" where
  "str_nat n =
     (if n < 10 then [char_of (48 + n)]
      else str_nat (n div 10) @ [char_of (48 + n mod 10)])"

definition default_ro_number :: "nat \<Rightarrow> string" where
  "default_ro_number n =
     ''RO-'' @ replicate (4 - length (str_nat n)) (CHR ''0'') @ str_nat n"

subsection \<open>The processed record\<close>

text \<open>
  The dict built at lines 153--176, field by field. The source keys \<^verbatim>\<open>status\<close> and \<^verbatim>\<open>notes\<close> are
  written \<open>ro_status\<close> and \<open>ro_notes\<close> here: the stats table has a column of the first name,
  and the second is a keyword of the proof language.
\<close>

record repair_order =
  ro_number :: json
  unit_number :: json
  vin :: json
  ro_status :: json
  priority :: json
  created_date :: json
  due_date :: json
  days_open :: int
  estimated_completion :: json
  description :: json
  tasks :: json
  parts_needed :: string
  total_cost :: real
  labor_hours :: real
  parts_cost :: real
  labor_cost :: real
  technician :: json
  location :: json
  customer_name :: json
  customer_contact :: json
  ro_notes :: json
  warranty :: json

text \<open>
  One loop body: the record for the raw dict \<open>ro\<close>, when \<open>n\<close> records have been
  processed so far. The entries are evaluated in source order, so the first one that
  raises decides the exception; the log is what \_calculate\_days\_open wrote.
\<close>

definition process_ro ::
    "(string \<Rightarrow> real option) \<Rightarrow> datetime \<Rightarrow> nat \<Rightarrow> pydict \<Rightarrow> log_entry list \<times> (pyexn + repair_order)" where
  "process_ro str2float now n ro =
     (let created = dict_get ro ''created_date'' (JStr []);
          due = dict_get ro ''due_date'' (JStr []);
          (lg, days) = calculate_days_open now created
      in (lg,
          bind_exn days (\<lambda>d.
          bind_exn (tasks_field ro) (\<lambda>t.
          bind_exn (parts_needed_field ro) (\<lambda>p.
          bind_exn (py_float str2float (dict_get ro ''total_cost'' (JInt 0))) (\<lambda>tc.
          bind_exn (py_float str2float (dict_get ro ''labor_hours'' (JInt 0))) (\<lambda>lh.
          bind_exn (py_float str2float (dict_get ro ''parts_cost'' (JInt 0))) (\<lambda>pc.
          bind_exn (py_float str2float (dict_get ro ''labor_cost'' (JInt 0))) (\<lambda>lc.
            Inr \<lparr>ro_number = dict_get ro ''ro_number'' (JStr (default_ro_number (n + 1))),
                 unit_number = dict_get ro ''unit_number'' (JStr []),
                 vin = dict_get ro ''vin'' (JStr []),
                 ro_status = dict_get ro ''status'' (JStr ''open''),
                 priority = dict_get ro ''priority'' (JStr ''medium''),
                 created_date = created,
                 due_date = due,
                 days_open = d,
                 estimated_completion = dict_get ro ''estimated_completion'' (JStr []),
                 description = dict_get ro ''description'' (JStr []),
                 tasks = t,
                 parts_needed = p,
                 total_cost = tc,
                 labor_hours = lh,
                 parts_cost = pc,
                 labor_cost = lc,
                 technician = dict_get ro ''technician'' (JStr ''Unassigned''),
                 location = dict_get ro ''location'' (JStr ''Main Shop''),
                 customer_name = dict_get ro ''customer_name'' (JStr []),
                 customer_contact = dict_get ro ''customer_contact'' (JStr []),
                 ro_notes = dict_get ro ''notes'' (JStr []),
                 warranty = dict_get ro ''warranty'' (JBool False)\<rparr>)))))))))"

subsection \<open>fetch\_repair\_orders (lines 131--187)\<close>

text \<open>
  The \<^verbatim>\<open>for\<close> loop over \<^verbatim>\<open>ro_list\<close> with its accumulator \<^verbatim>\<open>processed_ros\<close>. An item
  that is not a dict has no \<^verbatim>\<open>get\<close>. The loop has no handler of its own: an
  exception leaves it with the records processed so far discarded.
\<close>

fun process_loop ::
    "(string \<Rightarrow> real option) \<Rightarrow> datetime \<Rightarrow> repair_order list \<Rightarrow> json list
       \<Rightarrow> log_entry list \<times> (pyexn + repair_order list)" where
  "process_loop str2float now processed_ros [] = ([], Inr processed_ros)"
| "process_loop str2float now processed_ros (JObj ro # rest) =
     (case process_ro str2float now (length processed_ros) ro of
        (lg, Inl e) \<Rightarrow> (lg, Inl e)
      | (lg, Inr r) \<Rightarrow>
          (case process_loop str2float now (processed_ros @ [r]) rest of
             (lg', res) \<Rightarrow> (lg @ lg', res)))"
| "process_loop str2float now processed_ros (x # rest) = ([], Inl AttributeError)"

text \<open>
  What \<^verbatim>\<open>for ro in ro_list\<close> iterates over: the items of a list, the characters of a
  string, the keys of a dict; other values are not iterable.
\<close>

fun iter_items :: "json \<Rightarrow> pyexn + json list" where
  "iter_items (JList xs) = Inr xs"
| "iter_items (JStr s) = Inr (map (\<lambda>c. JStr [c]) s)"
| "iter_items (JObj kv) = Inr (map (\<lambda>(k, v). JStr k) kv)"
| "iter_items JNull = Inl TypeError"
| "iter_items (JBool b) = Inl TypeError"
| "iter_items (JInt n) = Inl TypeError"
| "iter_items (JFloat r) = Inl TypeError"

text \<open>
  The outcome of \<^verbatim>\<open>requests.get\<close>: an exception, or a response with its status code
  and what \<^verbatim>\<open>response.json()\<close> gives (a decoded value or the decoder's exception).
\<close>

datatype http_result =
    RequestFailed pyexn
  | Response int "pyexn + json"

text \<open>The body of the \<^verbatim>\<open>try\<close> block once the status is 200.\<close>

definition process_response ::
    "(string \<Rightarrow> real option) \<Rightarrow> datetime \<Rightarrow> pyexn + json \<Rightarrow> log_entry list \<times> (pyexn + repair_order list)" where
  "process_response str2float now body =
     (case body of
        Inl e \<Rightarrow> ([], Inl e)
      | Inr (JObj data) \<Rightarrow>
          (case iter_items (dict_get data ''repair_orders'' (JList [])) of
             Inl e \<Rightarrow> ([], Inl e)
           | Inr ro_list \<Rightarrow> process_loop str2float now [] ro_list)
      | Inr other \<Rightarrow> ([], Inl AttributeError))"

text \<open>
  The method: the log it writes and the table it returns. A table is the list of its
  rows; \<^verbatim>\<open>pd.DataFrame()\<close> is the empty list. The single \<^verbatim>\<open>except Exception\<close> spans the
  request, the decoding and the whole loop.
\<close>

definition fetch_repair_orders ::
    "(string \<Rightarrow> real option) \<Rightarrow> datetime \<Rightarrow> string option \<Rightarrow> http_result
       \<Rightarrow> log_entry list \<times> repair_order list" where
  "fetch_repair_orders str2float now token http =
     (if token = None \<or> token = Some [] then ([], [])
      else
        (case http of
           RequestFailed e \<Rightarrow> ([LogErrorExn e], [])
         | Response code body \<Rightarrow>
             (if code = 200 then
                (case process_response str2float now body of
                   (lg, Inl e) \<Rightarrow> (lg @ [LogErrorExn e], [])
                 | (lg, Inr table) \<Rightarrow> (lg, table))
              else ([LogErrorStatus code], []))))"

subsection \<open>calculate\_ro\_metrics (lines 254--277)\<close>

text \<open>
  The metrics dict. The source key \<^verbatim>\<open>total_cost\<close> is written \<open>sum_total_cost\<close>, since
  the processed record has a field of that name.
\<close>

record ro_metrics =
  total_ros :: nat
  open_ros :: nat
  closed_ros :: nat
  pending_ros :: nat
  avg_days_open :: pyfloat
  sum_total_cost :: real
  avg_labor_hours :: pyfloat
  unassigned_ros :: nat

definition calculate_ro_metrics :: "repair_order list \<Rightarrow> ro_metrics" where
  "calculate_ro_metrics df =
     (if df = [] then
        \<lparr>total_ros = 0, open_ros = 0, closed_ros = 0, pending_ros = 0,
         avg_days_open = Finite 0, sum_total_cost = 0, avg_labor_hours = Finite 0,
         unassigned_ros = 0\<rparr>
      else
        \<lparr>total_ros = length df,
         open_ros = length (filter (\<lambda>r. ro_status r = JStr ''open'') df),
         closed_ros = length (filter (\<lambda>r. ro_status r = JStr ''closed'') df),
         pending_ros = length (filter (\<lambda>r. ro_status r = JStr ''pending'') df),
         avg_days_open =
           (if filter (\<lambda>r. ro_status r = JStr ''open'') df \<noteq> []
            then series_mean (map (\<lambda>r. of_int (days_open r)) (filter (\<lambda>r. ro_status r = JStr ''open'') df))
            else Finite 0),
         sum_total_cost = sum_list (map total_cost df),
         avg_labor_hours = (if df \<noteq> [] then series_mean (map labor_hours df) else Finite 0),
         unassigned_ros = length (filter (\<lambda>r. technician r = JStr ''Unassigned'') df)\<rparr>)"

section \<open>Sample inputs\<close>

text \<open>
  Sample inputs of the evaluations below: the mocked clock reading
  2024-01-31T00:00:00 of the specification's test, and a response with status 200
  whose payload lists the given raw records.
\<close>

abbreviation now_2024_01_31 :: datetime where
  "now_2024_01_31 \<equiv>
     \<lparr>year = 2024, month = 1, day = 31, hour = 0, minute = 0, second = 0,
      microsecond = 0, tzoffset = None\<rparr>"

abbreviation ok_response :: "pydict list \<Rightarrow> http_result" where
  "ok_response ros \<equiv> Response 200 (Inr (JObj [(''repair_orders'', JList (map JObj ros))]))"

text \<open>The record that a raw record created on 2024-02-01 is processed to at that reading.\<close>

abbreviation future_record :: repair_order where
  "future_record \<equiv>
     \<lparr>ro_number = JStr ''RO-0001'', unit_number = JStr [], vin = JStr [],
      ro_status = JStr ''open'', priority = JStr ''medium'',
      created_date = JStr ''2024-02-01T00:00:00'', due_date = JStr [],
      days_open = - 1, estimated_completion = JStr [], description = JStr [],
      tasks = JStr [], parts_needed = [], total_cost = 0, labor_hours = 0,
      parts_cost = 0, labor_cost = 0, technician = JStr ''Unassigned'',
      location = JStr ''Main Shop'', customer_name = JStr [],
      customer_contact = JStr [], ro_notes = JStr [], warranty = JBool False\<rparr>"

text \<open>The table fetched from a payload with one closed repair order.\<close>

abbreviation closed_table :: "repair_order list" where
  "closed_table \<equiv>
     snd (fetch_repair_orders Map.empty now_2024_01_31 (Some ''token'')
            (ok_response [[(''status'', JStr ''closed''), (''labor_hours'', JInt 2)]]))"

section \<open>Properties of dashboard.py\<close>

text \<open>
  C6. For a numeric speed and any engine-state value the classification raises nothing
  and returns \<open>moving\<close> when the speed is positive, otherwise \<open>idle\<close> when the engine
  state is the string \<open>Running\<close>, otherwise \<open>offline\<close>; the three sample inputs of the
  specification are included.
\<close>

theorem classify_status_total:
  "classify_status (JInt n) engine =
     Inr (if n > 0 then ''moving'' else if engine = JStr ''Running'' then ''idle'' else ''offline'')
   \<and> classify_status (JFloat r) engine =
     Inr (if r > 0 then ''moving'' else if engine = JStr ''Running'' then ''idle'' else ''offline'')
   \<and> classify_status (JInt 0) (JStr ''Running'') = Inr ''idle''
   \<and> classify_status (JInt 5) (JStr ''Off'') = Inr ''moving''
   \<and> classify_status (JInt 0) (JStr ''Off'') = Inr ''offline''"
  by (simp add: classify_status_def)

lemma alerts_loop_append:
  "alerts_loop str_num alerts stats_df = alerts @ concat (map (row_alerts str_num) stats_df)"
  by (induction stats_df arbitrary: alerts) (simp_all add: row_alerts_def Let_def)

text \<open>
  C9. For every stats table the alerts are, row after row in table order, the row's
  speeding alert when its speed exceeds 80 followed by its low-fuel alert when its fuel
  percentage is below 20. A table of one row with speed 90 and fuel 15 gives exactly two
  alerts, the speeding one first.
\<close>

theorem generate_alerts_row_order:
  "generate_alerts str_num stats_df = alerts_spec str_num stats_df
   \<and> generate_alerts str_num
        [\<lparr>vehicle_id = v, speed_mph = 90, fuel_percent = 15, engine_hours = h,
          odometer_miles = m, status = st\<rparr>]
       = [''Vehicle '' @ v @ '': Speeding ('' @ str_num 90 @ '' mph)'',
          ''Vehicle '' @ v @ '': Low fuel ('' @ str_num 15 @ ''%)'']"
  by (simp add: generate_alerts_def alerts_spec_def alerts_loop_append row_alerts_def
      speeding_alert_def low_fuel_alert_def)

text \<open>
  C10. With an empty stats table the metrics are the all-zero mapping whatever the
  vehicles table holds; for a non-empty vehicles table the reported total, 0, is then
  not the number of vehicles.
\<close>

theorem fleet_metrics_empty_stats:
  "calculate_fleet_metrics vehicles_df [] =
     \<lparr>total_vehicles = 0, moving = 0, idle = 0, offline = 0,
      avg_speed = Finite 0, total_engine_hours = 0, low_fuel = 0\<rparr>
   \<and> total_vehicles (calculate_fleet_metrics (v # vs) []) = 0
   \<and> total_vehicles (calculate_fleet_metrics (v # vs) []) \<noteq> length (v # vs)"
  by (simp add: calculate_fleet_metrics_def)

text \<open>
  C3. The join of a non-empty vehicles table with empty stats, locations and
  assignment tables does not produce a table: an empty table has no
  \<^verbatim>\<open>vehicle_id\<close> column, and the first merge raises \<^verbatim>\<open>KeyError\<close>.
\<close>

theorem join_tables_empty_stats_KeyError:
  "join_tables (DataFrame (map vehicle_record (v # vs))) (DataFrame []) (DataFrame [])
     (DataFrame []) drivers_df = Inl (KeyError ''vehicle_id'')"
  by (simp add: join_tables_def merge_left_def DataFrame_def first_seen_def bind_exn_def)

text \<open>
  The same happens when the empty tables do carry their columns: the first two merges
  keep one row per vehicle, but both bring a \<^verbatim>\<open>vehicle_id\<close> column, which the second
  merge renames to \<^verbatim>\<open>vehicle_id_x\<close> and \<^verbatim>\<open>vehicle_id_y\<close>, so the third merge finds no
  \<^verbatim>\<open>vehicle_id\<close> on its left.
\<close>

lemma join_tables_no_rows_KeyError:
  "join_tables (DataFrame [vehicle_record [(''id'', JStr ''v1'')]])
     \<lparr>columns = [''vehicle_id'', ''speed_mph'', ''fuel_percent'', ''engine_hours'',
                 ''odometer_miles'', ''status''], rows = []\<rparr>
     \<lparr>columns = [''vehicle_id'', ''latitude'', ''longitude'', ''time'', ''address''], rows = []\<rparr>
     \<lparr>columns = [''vehicle_id'', ''driver_id''], rows = []\<rparr>
     \<lparr>columns = [''id'', ''name''], rows = []\<rparr>
   = Inl (KeyError ''vehicle_id'')"
  by code_simp

lemma merge_left_no_rows:
  "merge_left (DataFrame [vehicle_record [(''id'', JStr ''v1'')], vehicle_record [(''id'', JStr ''v2'')]])
     \<lparr>columns = [''vehicle_id'', ''speed_mph''], rows = []\<rparr> ''id'' ''vehicle_id'' (''_x'', ''_y'')
   = Inr \<lparr>columns = [''id'', ''name'', ''vin'', ''make'', ''model'', ''year'', ''license_plate'',
                      ''serial'', ''vehicle_id'', ''speed_mph''],
          rows = [[JStr ''v1'', JNull, JNull, JNull, JNull, JNull, JNull, JNull, JNull, JNull],
                  [JStr ''v2'', JNull, JNull, JNull, JNull, JNull, JNull, JNull, JNull, JNull]]\<rparr>"
  by code_simp

section \<open>Properties of repair\_orders.py\<close>

subsection \<open>Days open\<close>

text \<open>
  C8. When the parser is reached and fails, that is for a non-empty string whose
  \<^verbatim>\<open>Z\<close>-stripped form \<^verbatim>\<open>fromisoformat\<close> refuses, the method returns 0, logs exactly one
  warning and raises nothing. (The empty string is returned 0 for before any parsing,
  without a warning.)
\<close>

theorem days_open_parse_failure:
  assumes "s \<noteq> []" and "fromisoformat (rstrip_Z s) = None"
  shows "calculate_days_open now (JStr s) =
           ([LogWarning (''Invalid date format: '' @ rstrip_Z s)], Inr 0)"
  using assms by (simp add: calculate_days_open_def)

theorem days_open_parse_failure_witness:
  "''not-a-date'' \<noteq> [] \<and> fromisoformat (rstrip_Z ''not-a-date'') = None
   \<and> calculate_days_open now_2024_01_31 (JStr ''not-a-date'') =
        ([LogWarning ''Invalid date format: not-a-date''], Inr 0)"
proof -
  have a: "''not-a-date'' \<noteq> []" by simp
  have b: "fromisoformat (rstrip_Z ''not-a-date'') = None" by code_simp
  have c: "rstrip_Z ''not-a-date'' = ''not-a-date''" by code_simp
  from days_open_parse_failure[OF a b, of now_2024_01_31] c a b show ?thesis by simp
qed

text \<open>
  For a timestamp without UTC offset the result is the floor of the difference of the
  two clock readings in days.
\<close>

lemma days_open_naive:
  assumes "s \<noteq> []" and "fromisoformat (rstrip_Z s) = Some created"
    and "tzoffset created = None" and "tzoffset now = None"
  shows "calculate_days_open now (JStr s) =
           ([], Inr ((to_microseconds now - to_microseconds created) div 86400000000))"
  using assms by (simp add: calculate_days_open_def datetime_sub_def timedelta_days_def)

text \<open>
  C7. The sample of the specification evaluates to 30. The same timestamp written with
  the UTC offset \<^verbatim>\<open>+00:00\<close>, a well-formed ISO 8601 timestamp, parses to an aware
  datetime; subtracting it from the naive \<^verbatim>\<open>datetime.now()\<close> raises \<^verbatim>\<open>TypeError\<close>,
  which \<^verbatim>\<open>except ValueError\<close> does not catch, and the fetch that called the method
  returns an empty table.
\<close>

theorem days_open_offset_TypeError:
  "calculate_days_open now_2024_01_31 (JStr ''2024-01-01T00:00:00Z'') = ([], Inr 30)
   \<and> calculate_days_open now_2024_01_31 (JStr ''2024-01-01T00:00:00'') = ([], Inr 30)
   \<and> calculate_days_open now_2024_01_31 (JStr ''2024-01-01T00:00:00+00:00'') = ([], Inl TypeError)
   \<and> fetch_repair_orders Map.empty now_2024_01_31 (Some ''token'')
        (ok_response [[(''created_date'', JStr ''2024-01-01T00:00:00+00:00'')]])
      = ([LogErrorExn TypeError], [])"
  by code_simp

lemma process_ro_days_open:
  "process_ro p now n ro = (lg, Inr r) \<Longrightarrow>
     calculate_days_open now (dict_get ro ''created_date'' (JStr [])) = (lg, Inr (days_open r))"
  by (auto simp add: process_ro_def Let_def bind_exn_def split: prod.splits sum.splits)

lemma timedelta_days_neg: "timedelta_days us < 0 \<longleftrightarrow> us < 0"
  by (simp add: timedelta_days_def pos_imp_zdiv_neg_iff)

lemma calculate_days_open_neg:
  assumes "tzoffset now = None" and "calculate_days_open now v = (lg, Inr d)"
  shows "d < 0 \<longleftrightarrow>
     (\<exists>s c. v = JStr s \<and> s \<noteq> [] \<and> fromisoformat (rstrip_Z s) = Some c
        \<and> to_microseconds now < to_microseconds c)"
  using assms
  by (cases v) (auto simp add: calculate_days_open_def datetime_sub_def timedelta_days_neg
       split: if_splits option.splits sum.splits)

text \<open>
  C5, as the code has it. The days-open field of a processed record is an integer that
  may be negative: with the naive clock reading \<open>now\<close>, it is below 0 exactly when the
  record's \<^verbatim>\<open>created_date\<close> is a non-empty string that parses to a timestamp later than
  \<open>now\<close>, and at least 0 in every other case.
\<close>

theorem days_open_sign:
  assumes "tzoffset now = None" and "process_ro p now n ro = (lg, Inr r)"
  shows "days_open r < 0 \<longleftrightarrow>
     (\<exists>s c. dict_get ro ''created_date'' (JStr []) = JStr s \<and> s \<noteq> []
        \<and> fromisoformat (rstrip_Z s) = Some c
        \<and> to_microseconds now < to_microseconds c)"
  using calculate_days_open_neg[OF assms(1) process_ro_days_open[OF assms(2)]] .

theorem days_open_sign_witness:
  "tzoffset now_2024_01_31 = None
   \<and> process_ro Map.empty now_2024_01_31 0 [(''created_date'', JStr ''2024-02-01T00:00:00'')]
        = ([], Inr future_record)
   \<and> days_open future_record < 0
   \<and> (\<exists>s c. dict_get [(''created_date'', JStr ''2024-02-01T00:00:00'')] ''created_date'' (JStr [])
              = JStr s \<and> s \<noteq> [] \<and> fromisoformat (rstrip_Z s) = Some c
          \<and> to_microseconds now_2024_01_31 < to_microseconds c)"
proof -
  have a: "tzoffset now_2024_01_31 = None" by simp
  have b: "process_ro Map.empty now_2024_01_31 0 [(''created_date'', JStr ''2024-02-01T00:00:00'')]
             = ([], Inr future_record)"
    by code_simp
  have c: "days_open future_record < 0" by simp
  from days_open_sign[OF a b] c
  have "\<exists>s c. dict_get [(''created_date'', JStr ''2024-02-01T00:00:00'')] ''created_date'' (JStr [])
              = JStr s \<and> s \<noteq> [] \<and> fromisoformat (rstrip_Z s) = Some c
          \<and> to_microseconds now_2024_01_31 < to_microseconds c"
    by blast
  with a b c show ?thesis by blast
qed

text \<open>
  Counterexample to C5 as stated: a record created on 2024-02-01, fetched when the
  clock reads 2024-01-31, has days-open \<open>-1\<close>.
\<close>

theorem days_open_negative:
  "map days_open (snd (fetch_repair_orders Map.empty now_2024_01_31 (Some ''token'')
      (ok_response [[(''created_date'', JStr ''2024-02-01T00:00:00'')]]))) = [- 1]"
  by code_simp

subsection \<open>List-typed fields\<close>

text \<open>
  C4. A list of strings is joined with \<^verbatim>\<open>", "\<close> in both fields, and a string passes
  through \<^verbatim>\<open>tasks\<close> unchanged; but a string in \<^verbatim>\<open>parts_needed\<close> is replaced by the empty
  string, so the processed record loses it.
\<close>

theorem parts_needed_string_dropped:
  "tasks_field [(''tasks'', JList [JStr ''A'', JStr ''B''])] = Inr (JStr ''A, B'')
   \<and> tasks_field [(''tasks'', JStr ''A, B'')] = Inr (JStr ''A, B'')
   \<and> parts_needed_field [(''parts_needed'', JList [JStr ''A'', JStr ''B''])] = Inr ''A, B''
   \<and> parts_needed_field [(''parts_needed'', JStr ''A, B'')] = Inr []
   \<and> map parts_needed (snd (fetch_repair_orders Map.empty now_2024_01_31 (Some ''token'')
        (ok_response [[(''tasks'', JStr ''A, B''), (''parts_needed'', JStr ''A, B'')]]))) = [[]]
   \<and> map tasks (snd (fetch_repair_orders Map.empty now_2024_01_31 (Some ''token'')
        (ok_response [[(''tasks'', JStr ''A, B''), (''parts_needed'', JStr ''A, B'')]])))
        = [JStr ''A, B'']"
  by code_simp

subsection \<open>The batch\<close>

text \<open>
  Whether a record raises, and what it logs, does not depend on its position in the
  batch: the position only enters the default order number.
\<close>

lemma process_ro_isl_index:
  "isl (snd (process_ro p now n ro)) = isl (snd (process_ro p now 0 ro))"
  by (simp add: process_ro_def Let_def bind_exn_def split: prod.splits sum.splits)

lemma process_loop_raises:
  "\<exists>ro\<in>set ros. isl (snd (process_ro p now 0 ro)) \<Longrightarrow>
     \<exists>lg e. process_loop p now acc (map JObj ros) = (lg, Inl e)"
proof (induction ros arbitrary: acc)
  case Nil
  then show ?case by simp
next
  case (Cons ro ros)
  obtain lg res where pr: "process_ro p now (length acc) ro = (lg, res)"
    by (cases "process_ro p now (length acc) ro")
  show ?case
  proof (cases res)
    case (Inl e)
    with pr show ?thesis by simp
  next
    case (Inr r)
    with pr have "\<not> isl (snd (process_ro p now (length acc) ro))" by simp
    then have "\<not> isl (snd (process_ro p now 0 ro))"
      using process_ro_isl_index[of p now "length acc" ro] by simp
    with Cons.prems have "\<exists>ro\<in>set ros. isl (snd (process_ro p now 0 ro))" by auto
    from Cons.IH[OF this, of "acc @ [r]"] obtain lg' e
      where "process_loop p now (acc @ [r]) (map JObj ros) = (lg', Inl e)" by blast
    with pr Inr show ?thesis by simp
  qed
qed

lemma process_loop_all:
  "\<forall>ro\<in>set ros. \<not> isl (snd (process_ro p now 0 ro)) \<Longrightarrow>
     \<exists>lg out. process_loop p now acc (map JObj ros) = (lg, Inr (acc @ out))
        \<and> length out = length ros
        \<and> (\<forall>i<length ros. snd (process_ro p now (length acc + i) (ros ! i)) = Inr (out ! i))"
proof (induction ros arbitrary: acc)
  case Nil
  then show ?case by simp
next
  case (Cons ro ros)
  obtain lg res where pr: "process_ro p now (length acc) ro = (lg, res)"
    by (cases "process_ro p now (length acc) ro")
  from Cons.prems have "\<not> isl (snd (process_ro p now 0 ro))" by simp
  then have "\<not> isl (snd (process_ro p now (length acc) ro))"
    using process_ro_isl_index[of p now "length acc" ro] by simp
  with pr obtain r where r: "res = Inr r" by (cases res) auto
  from Cons.prems have "\<forall>ro\<in>set ros. \<not> isl (snd (process_ro p now 0 ro))" by simp
  from Cons.IH[OF this, of "acc @ [r]"] obtain lg' out where
    loop: "process_loop p now (acc @ [r]) (map JObj ros) = (lg', Inr ((acc @ [r]) @ out))"
    and len: "length out = length ros"
    and each: "\<forall>i<length ros.
                 snd (process_ro p now (length (acc @ [r]) + i) (ros ! i)) = Inr (out ! i)"
    by blast
  have "process_loop p now acc (map JObj (ro # ros)) = (lg @ lg', Inr (acc @ (r # out)))"
    using pr r loop by simp
  moreover have "length (r # out) = length (ro # ros)" using len by simp
  moreover have "\<forall>i<length (ro # ros).
      snd (process_ro p now (length acc + i) ((ro # ros) ! i)) = Inr ((r # out) ! i)"
  proof (intro allI impI)
    fix i assume i: "i < length (ro # ros)"
    show "snd (process_ro p now (length acc + i) ((ro # ros) ! i)) = Inr ((r # out) ! i)"
    proof (cases i)
      case 0
      with pr r show ?thesis by simp
    next
      case (Suc j)
      with i have "j < length ros" by simp
      with each have "snd (process_ro p now (length (acc @ [r]) + j) (ros ! j)) = Inr (out ! j)"
        by blast
      with Suc show ?thesis by simp
    qed
  qed
  ultimately show ?case by blast
qed

text \<open>
  C1, as the code has it. For a response with status 200 whose \<^verbatim>\<open>repair_orders\<close> is a
  list of dicts: if the normalisation of any record raises, the method logs an error
  and returns the empty table, so no record of the batch is returned; if no record
  raises, it returns one processed record per raw record, in batch order.
\<close>

theorem fetch_all_or_nothing:
  assumes "token \<noteq> None" and "token \<noteq> Some []"
    and "map_of data ''repair_orders'' = Some (JList (map JObj ros))"
  shows "((\<exists>ro\<in>set ros. isl (snd (process_ro p now 0 ro))) \<longrightarrow>
            (\<exists>lg e. fetch_repair_orders p now token (Response 200 (Inr (JObj data)))
                       = (lg @ [LogErrorExn e], [])))
       \<and> ((\<forall>ro\<in>set ros. \<not> isl (snd (process_ro p now 0 ro))) \<longrightarrow>
            (\<exists>lg out. fetch_repair_orders p now token (Response 200 (Inr (JObj data))) = (lg, out)
               \<and> length out = length ros
               \<and> (\<forall>i<length ros. snd (process_ro p now i (ros ! i)) = Inr (out ! i))))"
proof (intro conjI impI)
  assume "\<exists>ro\<in>set ros. isl (snd (process_ro p now 0 ro))"
  from process_loop_raises[OF this, of "[]"] obtain lg e
    where "process_loop p now [] (map JObj ros) = (lg, Inl e)" by blast
  then have "fetch_repair_orders p now token (Response 200 (Inr (JObj data)))
               = (lg @ [LogErrorExn e], [])"
    using assms
    by (cases token) (simp_all add: fetch_repair_orders_def process_response_def dict_get_def)
  then show "\<exists>lg e. fetch_repair_orders p now token (Response 200 (Inr (JObj data)))
                       = (lg @ [LogErrorExn e], [])"
    by blast
next
  assume "\<forall>ro\<in>set ros. \<not> isl (snd (process_ro p now 0 ro))"
  from process_loop_all[OF this, of "[]"] obtain lg out where
    loop: "process_loop p now [] (map JObj ros) = (lg, Inr out)"
    and rest: "length out = length ros"
      "\<forall>i<length ros. snd (process_ro p now i (ros ! i)) = Inr (out ! i)"
    by auto
  from loop have "fetch_repair_orders p now token (Response 200 (Inr (JObj data))) = (lg, out)"
    using assms
    by (cases token) (simp_all add: fetch_repair_orders_def process_response_def dict_get_def)
  with rest
  show "\<exists>lg out. fetch_repair_orders p now token (Response 200 (Inr (JObj data))) = (lg, out)
               \<and> length out = length ros
               \<and> (\<forall>i<length ros. snd (process_ro p now i (ros ! i)) = Inr (out ! i))"
    by blast
qed

theorem fetch_all_or_nothing_witness:
  "Some ''token'' \<noteq> None \<and> Some ''token'' \<noteq> Some []
   \<and> isl (snd (process_ro Map.empty now_2024_01_31 0 [(''total_cost'', JNull)]))
   \<and> (\<exists>lg e. fetch_repair_orders Map.empty now_2024_01_31 (Some ''token'')
                (ok_response [[(''ro_number'', JStr ''RO-1'')], [(''total_cost'', JNull)]])
              = (lg @ [LogErrorExn e], []))
   \<and> \<not> isl (snd (process_ro Map.empty now_2024_01_31 0 [(''ro_number'', JStr ''RO-1'')]))
   \<and> \<not> isl (snd (process_ro Map.empty now_2024_01_31 0 [(''total_cost'', JInt 5)]))
   \<and> (\<exists>lg out. fetch_repair_orders Map.empty now_2024_01_31 (Some ''token'')
                (ok_response [[(''ro_number'', JStr ''RO-1'')], [(''total_cost'', JInt 5)]])
              = (lg, out) \<and> length out = 2)"
proof -
  have t: "Some ''token'' \<noteq> None" "Some ''token'' \<noteq> Some []" by simp_all
  have bad: "isl (snd (process_ro Map.empty now_2024_01_31 0 [(''total_cost'', JNull)]))"
    by code_simp
  have good1: "\<not> isl (snd (process_ro Map.empty now_2024_01_31 0 [(''ro_number'', JStr ''RO-1'')]))"
    by code_simp
  have good2: "\<not> isl (snd (process_ro Map.empty now_2024_01_31 0 [(''total_cost'', JInt 5)]))"
    by code_simp
  have d1: "map_of [(''repair_orders'',
                JList (map JObj [[(''ro_number'', JStr ''RO-1'')], [(''total_cost'', JNull)]]))]
              ''repair_orders''
            = Some (JList (map JObj [[(''ro_number'', JStr ''RO-1'')], [(''total_cost'', JNull)]]))"
    by simp
  have d2: "map_of [(''repair_orders'',
                JList (map JObj [[(''ro_number'', JStr ''RO-1'')], [(''total_cost'', JInt 5)]]))]
              ''repair_orders''
            = Some (JList (map JObj [[(''ro_number'', JStr ''RO-1'')], [(''total_cost'', JInt 5)]]))"
    by simp
  have e1: "\<exists>ro\<in>set [[(''ro_number'', JStr ''RO-1'')], [(''total_cost'', JNull)]].
              isl (snd (process_ro Map.empty now_2024_01_31 0 ro))"
    using bad by simp
  have e2: "\<forall>ro\<in>set [[(''ro_number'', JStr ''RO-1'')], [(''total_cost'', JInt 5)]].
              \<not> isl (snd (process_ro Map.empty now_2024_01_31 0 ro))"
    using good1 good2 by simp
  from fetch_all_or_nothing[OF t d1, of Map.empty now_2024_01_31] e1
  have r1: "\<exists>lg e. fetch_repair_orders Map.empty now_2024_01_31 (Some ''token'')
                (ok_response [[(''ro_number'', JStr ''RO-1'')], [(''total_cost'', JNull)]])
              = (lg @ [LogErrorExn e], [])"
    by blast
  from fetch_all_or_nothing[OF t d2, of Map.empty now_2024_01_31] e2
  have r2: "\<exists>lg out. fetch_repair_orders Map.empty now_2024_01_31 (Some ''token'')
                (ok_response [[(''ro_number'', JStr ''RO-1'')], [(''total_cost'', JInt 5)]])
              = (lg, out) \<and> length out = 2"
    by fastforce
  from t bad good1 good2 r1 r2 show ?thesis by blast
qed

text \<open>
  Counterexample to C1 as stated: in a batch of two records, the second with a cost
  that \<^verbatim>\<open>float\<close> cannot convert, the well-formed first record is not returned either;
  the result is the empty table and one logged error.
\<close>

theorem fetch_one_bad_record_empties_batch:
  "fetch_repair_orders Map.empty now_2024_01_31 (Some ''token'')
     (ok_response [[(''ro_number'', JStr ''RO-1'')], [(''total_cost'', JNull)]])
   = ([LogErrorExn TypeError], [])"
  by code_simp

subsection \<open>Metrics\<close>

text \<open>
  C2. Fleet metrics of an empty table (either of the two) are all zero, and their mean
  speed is never NaN; repair-order metrics of an empty table are all zero, their two
  means are never NaN, and the mean days-open is 0 when no row has status
  \<open>open\<close>.
\<close>

theorem metrics_mean_of_empty:
  "calculate_fleet_metrics vehicles_df [] =
     \<lparr>total_vehicles = 0, moving = 0, idle = 0, offline = 0,
      avg_speed = Finite 0, total_engine_hours = 0, low_fuel = 0\<rparr>
   \<and> calculate_fleet_metrics [] stats_df =
     \<lparr>total_vehicles = 0, moving = 0, idle = 0, offline = 0,
      avg_speed = Finite 0, total_engine_hours = 0, low_fuel = 0\<rparr>
   \<and> avg_speed (calculate_fleet_metrics vehicles_df stats_df) \<noteq> NaN
   \<and> calculate_ro_metrics [] =
     \<lparr>total_ros = 0, open_ros = 0, closed_ros = 0, pending_ros = 0,
      avg_days_open = Finite 0, sum_total_cost = 0, avg_labor_hours = Finite 0,
      unassigned_ros = 0\<rparr>
   \<and> avg_days_open (calculate_ro_metrics df) \<noteq> NaN
   \<and> avg_labor_hours (calculate_ro_metrics df) \<noteq> NaN
   \<and> (filter (\<lambda>r. ro_status r = JStr ''open'') df = [] \<longrightarrow>
        avg_days_open (calculate_ro_metrics df) = Finite 0)"
  by (simp add: calculate_fleet_metrics_def calculate_ro_metrics_def series_mean_def)

theorem metrics_mean_of_empty_witness:
  "length closed_table = 1
   \<and> filter (\<lambda>r. ro_status r = JStr ''open'') closed_table = []
   \<and> avg_days_open (calculate_ro_metrics closed_table) = Finite 0"
proof -
  have n: "length closed_table = 1" by code_simp
  have h: "filter (\<lambda>r. ro_status r = JStr ''open'') closed_table = []" by code_simp
  from metrics_mean_of_empty[where df = closed_table] h
  have "avg_days_open (calculate_ro_metrics closed_table) = Finite 0" by blast
  with n h show ?thesis by blast
qed

end
